theory Spec2Isabelle
  imports Complex_Main "HOL-Library.Word" "HOL-Library.Log_Nat"
begin

section \<open>Sizing up E. coli: calibration, normalisation and scale-bar overlay\<close>

text \<open>
  A shallow embedding of \<^verbatim>\<open>Computational-Exploration/Chapter-2/EColiSize.py\<close>, lines 74-171:
  the calibration arithmetic, the intensity normalisation and the region assignments that
  draw the scale bar. Plotting, printing and file input/output are left out.

  Numbers. A \<^verbatim>\<open>float64\<close> value is finite, and then given by the rational number it denotes,
  or an infinity or \<^verbatim>\<open>nan\<close>; the two zeros are one value. A floating-point operation rounds
  its exact result, and the rounding is a parameter of the scalar operations: \<open>round64\<close> is
  the rounding of IEEE 754 binary64 to the nearest value, ties to even, with which the
  program runs; \<open>exact\<close> rounds nothing and is the arithmetic in which the specification
  writes its formulas. The coordinates of a click are \<^verbatim>\<open>numpy.float64\<close> scalars, as
  \<^verbatim>\<open>plt.ginput\<close> returns them, so that the arithmetic on them is numpy's, which raises
  nothing. The elementwise division that normalises the image keeps its exact quotient.
  Pixels of the loaded image are unsigned machine integers of any width (\<open>'w word\<close>), whose
  subtraction wraps around as numpy's does.
\<close>

subsection \<open>Errors\<close>

datatype error = IndexError | ZeroDivisionError | ValueError | OverflowError

subsection \<open>Values of type float64\<close>

datatype float64 = Fin rat | PInf | NInf | NaN


fun float_neg :: "float64 \<Rightarrow> float64" where
  "float_neg (Fin v) = Fin (- v)"
| "float_neg PInf = NInf"
| "float_neg NInf = PInf"
| "float_neg NaN = NaN"

text \<open>\<^verbatim>\<open>abs(x)\<close>.\<close>

fun float_abs :: "float64 \<Rightarrow> float64" where
  "float_abs (Fin v) = Fin \<bar>v\<bar>"
| "float_abs PInf = PInf"
| "float_abs NInf = PInf"
| "float_abs NaN = NaN"

subsection \<open>Rounding to float64\<close>

type_synonym rounding = "rat \<Rightarrow> float64"

definition exact :: rounding where
  "exact q = Fin q"

text \<open>The nearest integer, the even one of the two when \<open>x\<close> lies halfway.\<close>

definition round_half_even :: "rat \<Rightarrow> int" where
  "round_half_even x =
     (let f = \<lfloor>x\<rfloor>; r = x - of_int f
      in if r < 1 / 2 then f else if 1 / 2 < r then f + 1 else if even f then f else f + 1)"

text \<open>The exponent \<open>e\<close> with \<open>2 ^ e \<le> q < 2 ^ (e + 1)\<close>, for \<open>q > 0\<close>.\<close>

definition floor_log2 :: "rat \<Rightarrow> int" where
  "floor_log2 q = (if 1 \<le> q then bitlen \<lfloor>q\<rfloor> - 1 else - bitlen (\<lceil>1 / q\<rceil> - 1))"

text \<open>A binary64 value with exponent \<open>e\<close> is a multiple of \<open>2 ^ (e - 52)\<close>, its significand
  having 53 bits; the least exponent is \<open>-1022\<close>, below which the spacing stays that of the
  subnormal values. \<open>nearest_binary q\<close> is the multiple nearest to \<open>q > 0\<close>.\<close>

definition nearest_binary :: "rat \<Rightarrow> rat" where
  "nearest_binary q =
     (let e = max (floor_log2 q) (- 1022); ulp = 2 powi (e - 52)
      in of_int (round_half_even (q / ulp)) * ulp)"

text \<open>A rounded value of \<open>2 ^ 1024\<close> or more overflows to infinity.\<close>

definition round64_pos :: "rat \<Rightarrow> float64" where
  "round64_pos q = (if nearest_binary q < 2 ^ 1024 then Fin (nearest_binary q) else PInf)"

definition round64 :: rounding where
  "round64 q =
     (if q = 0 then Fin 0
      else if 0 < q then round64_pos q
      else float_neg (round64_pos (- q)))"

subsection \<open>Scalar operations of Python and numpy\<close>

text \<open>\<^verbatim>\<open>a / b\<close> on a Python float and a Python number raises \<^verbatim>\<open>ZeroDivisionError\<close> when
  \<^verbatim>\<open>b\<close> is zero.\<close>

definition py_truediv :: "rounding \<Rightarrow> rat \<Rightarrow> rat \<Rightarrow> error + float64" where
  "py_truediv fl a b = (if b = 0 then Inl ZeroDivisionError else Inr (fl (a / b)))"

text \<open>\<^verbatim>\<open>c / d\<close> for a Python number \<open>c\<close> and a \<^verbatim>\<open>numpy.float64\<close> \<open>d\<close> is numpy's division: a
  zero divisor gives an infinity, or \<^verbatim>\<open>nan\<close> for \<open>0 / 0\<close>, with a warning and no exception.\<close>

definition np_float_divide :: "rounding \<Rightarrow> rat \<Rightarrow> float64 \<Rightarrow> float64" where
  "np_float_divide fl c d =
     (case d of
        Fin b \<Rightarrow>
          (if b = 0 then (if c = 0 then NaN else if 0 < c then PInf else NInf)
           else fl (c / b))
      | PInf \<Rightarrow> Fin 0
      | NInf \<Rightarrow> Fin 0
      | NaN \<Rightarrow> NaN)"

text \<open>\<^verbatim>\<open>c * s\<close> for a Python number \<open>c\<close> and a \<^verbatim>\<open>numpy.float64\<close> \<open>s\<close>.\<close>

definition np_float_multiply :: "rounding \<Rightarrow> rat \<Rightarrow> float64 \<Rightarrow> float64" where
  "np_float_multiply fl c s =
     (case s of
        Fin v \<Rightarrow> fl (c * v)
      | PInf \<Rightarrow> (if 0 < c then PInf else if c < 0 then NInf else NaN)
      | NInf \<Rightarrow> (if 0 < c then NInf else if c < 0 then PInf else NaN)
      | NaN \<Rightarrow> NaN)"

text \<open>\<^verbatim>\<open>int(s)\<close> truncates a finite value towards zero and raises \<^verbatim>\<open>OverflowError\<close> on an
  infinity, \<^verbatim>\<open>ValueError\<close> on \<^verbatim>\<open>nan\<close>.\<close>

definition py_int :: "float64 \<Rightarrow> error + int" where
  "py_int s =
     (case s of
        Fin v \<Rightarrow> Inr (if 0 \<le> v then \<lfloor>v\<rfloor> else \<lceil>v\<rceil>)
      | PInf \<Rightarrow> Inl OverflowError
      | NInf \<Rightarrow> Inl OverflowError
      | NaN \<Rightarrow> Inl ValueError)"

text \<open>Subscripting a Python list, \<^verbatim>\<open>xs[i]\<close>: the positions \<open>0 .. len - 1\<close> are read
  directly, the positions \<open>-len .. -1\<close> are read from the end, and every other position
  raises \<^verbatim>\<open>IndexError\<close>.\<close>

definition py_index :: "'a list \<Rightarrow> int \<Rightarrow> error + 'a" where
  "py_index xs i =
     (if 0 \<le> i \<and> i < int (length xs) then Inr (xs ! nat i)
      else if - int (length xs) \<le> i \<and> i < 0 then Inr (xs ! nat (int (length xs) + i))
      else Inl IndexError)"

subsection \<open>Calibration (lines 74-75 and 102-104)\<close>

text \<open>Line 74: \<^verbatim>\<open>pixels_between_lines = 1299 - 62\<close>, on Python integers. Line 75:
  \<^verbatim>\<open>nm_per_pixel = 1000. * 8 * 10 / pixels_between_lines\<close>, on a Python float and a Python
  integer; the products 8000 and 80000 are float64 values, so that only the division rounds.\<close>

definition manual_pixels_between_lines :: int where
  "manual_pixels_between_lines = 1299 - 62"

definition manual_nm_per_pixel :: "rounding \<Rightarrow> error + float64" where
  "manual_nm_per_pixel fl = py_truediv fl (1000 * 8 * 10) (of_int manual_pixels_between_lines)"

text \<open>A click is the pair \<open>(x, y)\<close> that \<^verbatim>\<open>plt.ginput\<close> returns for it, two
  \<^verbatim>\<open>numpy.float64\<close> values, which are finite; \<^verbatim>\<open>clicks\<close> is the list of them, in click
  order. Line 102: \<^verbatim>\<open>pixels_between_lines = abs(clicks[1][0] - clicks[0][0])\<close>; the operand
  \<^verbatim>\<open>clicks[1][0]\<close> is evaluated first.\<close>

type_synonym click = "rat \<times> rat"

definition click_pixels_between_lines :: "rounding \<Rightarrow> click list \<Rightarrow> error + float64" where
  "click_pixels_between_lines fl clicks =
     (case py_index clicks 1 of
        Inl e \<Rightarrow> Inl e
      | Inr c1 \<Rightarrow>
          (case py_index clicks 0 of
             Inl e \<Rightarrow> Inl e
           | Inr c0 \<Rightarrow> Inr (float_abs (fl (fst c1 - fst c0)))))"

text \<open>Line 104: \<^verbatim>\<open>nm_per_pixel = 1000. * 8 * 10 / pixels_between_lines\<close>, where the divisor is
  a \<^verbatim>\<open>numpy.float64\<close>.\<close>

definition click_nm_per_pixel :: "rounding \<Rightarrow> click list \<Rightarrow> error + float64" where
  "click_nm_per_pixel fl clicks =
     (case click_pixels_between_lines fl clicks of
        Inl e \<Rightarrow> Inl e
      | Inr pixels_between_lines \<Rightarrow>
          Inr (np_float_divide fl (1000 * 8 * 10) pixels_between_lines))"

text \<open>The scale factor in the words of the specification:
  (gap count \<open>\<times>\<close> unit spacing) / pixel distance.\<close>

definition spec_scale_factor :: "rat \<Rightarrow> rat \<Rightarrow> rat \<Rightarrow> rat" where
  "spec_scale_factor gap_count unit_spacing pixel_distance =
     (gap_count * unit_spacing) / pixel_distance"

subsection \<open>Arrays and numpy's elementwise arithmetic (line 117)\<close>

text \<open>A two-dimensional array is the list of its rows.\<close>

type_synonym 'a array2 = "'a list list"

text \<open>\<^verbatim>\<open>np.min(a)\<close> and \<^verbatim>\<open>np.max(a)\<close> reduce over all elements and raise \<^verbatim>\<open>ValueError\<close>
  on an array without elements.\<close>

definition np_min :: "'a::linorder array2 \<Rightarrow> error + 'a" where
  "np_min a = (case concat a of [] \<Rightarrow> Inl ValueError | x # xs \<Rightarrow> Inr (fold min xs x))"

definition np_max :: "'a::linorder array2 \<Rightarrow> error + 'a" where
  "np_max a = (case concat a of [] \<Rightarrow> Inl ValueError | x # xs \<Rightarrow> Inr (fold max xs x))"

text \<open>\<^verbatim>\<open>a - s\<close> for an unsigned integer array and a scalar of its type: elementwise, wrapping
  around.\<close>

definition np_subtract :: "'w::len word array2 \<Rightarrow> 'w word \<Rightarrow> 'w word array2" where
  "np_subtract a s = map (map (\<lambda>x. x - s)) a"

text \<open>\<^verbatim>\<open>x / y\<close> on unsigned integers is numpy's true division into \<^verbatim>\<open>float64\<close>: a zero divisor
  raises nothing and gives \<^verbatim>\<open>nan\<close> for \<open>0 / 0\<close> and \<^verbatim>\<open>inf\<close> otherwise.\<close>

definition np_true_divide :: "'w::len word \<Rightarrow> 'w word \<Rightarrow> float64" where
  "np_true_divide x y =
     (if y = 0 then (if x = 0 then NaN else PInf)
      else Fin (rat_of_nat (unat x) / rat_of_nat (unat y)))"

definition np_divide :: "'w::len word array2 \<Rightarrow> 'w word \<Rightarrow> float64 array2" where
  "np_divide a s = map (map (\<lambda>x. np_true_divide x s)) a"

text \<open>Line 117:
  \<^verbatim>\<open>ecoli_norm = (ecoli - np.min(ecoli)) / (np.max(ecoli) - np.min(ecoli))\<close>,
  with the three reductions in the order in which Python evaluates them.\<close>

definition normalize_image :: "'w::len word array2 \<Rightarrow> error + float64 array2" where
  "normalize_image ecoli =
     (case np_min ecoli of
        Inl e \<Rightarrow> Inl e
      | Inr mn \<Rightarrow>
          (let shifted = np_subtract ecoli mn in
           case np_max ecoli of
             Inl e \<Rightarrow> Inl e
           | Inr mx \<Rightarrow>
               (case np_min ecoli of
                  Inl e \<Rightarrow> Inl e
                | Inr mn' \<Rightarrow> Inr (np_divide shifted (mx - mn')))))"

subsection \<open>Scale-bar geometry (lines 132-149)\<close>

text \<open>Line 132: \<^verbatim>\<open>scale_bar_length = 1_000 / nm_per_pixel\<close>, where \<^verbatim>\<open>nm_per_pixel\<close> is the
  \<^verbatim>\<open>numpy.float64\<close> of line 104.\<close>

definition scale_bar_length :: "rounding \<Rightarrow> float64 \<Rightarrow> float64" where
  "scale_bar_length fl nm_per_pixel = np_float_divide fl 1000 nm_per_pixel"

definition scale_bar_xL :: int where "scale_bar_xL = 1150"
definition scale_bar_y :: int where "scale_bar_y = 900"
definition scale_bar_thickness :: int where "scale_bar_thickness = 5"
definition scale_bar_height :: int where "scale_bar_height = 25"

text \<open>The dictionary \<^verbatim>\<open>scale_bar_offset\<close> has the three fixed keys \<^verbatim>\<open>'1'\<close>, \<^verbatim>\<open>'5'\<close>
  and \<^verbatim>\<open>'10'\<close>; it is a record with one field for each.\<close>

record offsets =
  tick1 :: int
  tick5 :: int
  tick10 :: int

text \<open>Lines 145-149: the three values are evaluated in the order of the keys, each product
  is a float64 product, and the first \<^verbatim>\<open>int\<close> that fails ends the evaluation.\<close>

definition scale_bar_offset :: "rounding \<Rightarrow> float64 \<Rightarrow> error + offsets" where
  "scale_bar_offset fl sbl =
     (case py_int sbl of
        Inl e \<Rightarrow> Inl e
      | Inr t1 \<Rightarrow>
          (case py_int (np_float_multiply fl 5 sbl) of
             Inl e \<Rightarrow> Inl e
           | Inr t5 \<Rightarrow>
               (case py_int (np_float_multiply fl 10 sbl) of
                  Inl e \<Rightarrow> Inl e
                | Inr t10 \<Rightarrow> Inr \<lparr>tick1 = t1, tick5 = t5, tick10 = t10\<rparr>)))"


subsection \<open>Slice assignment (lines 153-171)\<close>

text \<open>Python clamps each bound of a slice to the length of the axis; a negative bound counts
  from the end. No bound of a slice is ever out of range.\<close>

definition slice_bound :: "int \<Rightarrow> nat \<Rightarrow> nat" where
  "slice_bound i n = (if i < 0 then nat (max 0 (i + int n)) else min (nat i) n)"

text \<open>Whether the slice \<^verbatim>\<open>start:stop\<close> of an axis of length \<open>n\<close> selects the index \<open>i\<close>.\<close>

definition in_slice :: "int \<Rightarrow> int \<Rightarrow> nat \<Rightarrow> nat \<Rightarrow> bool" where
  "in_slice start stop n i = (slice_bound start n \<le> i \<and> i < slice_bound stop n)"

text \<open>\<^verbatim>\<open>xs[start:stop] = v\<close> for a scalar \<open>v\<close>, on one axis.\<close>

definition set_slice :: "int \<Rightarrow> int \<Rightarrow> 'a \<Rightarrow> 'a list \<Rightarrow> 'a list" where
  "set_slice start stop v xs =
     map (\<lambda>(i, x). if in_slice start stop (length xs) i then v else x) (enumerate 0 xs)"

text \<open>\<^verbatim>\<open>a[r0:r1, c0:c1] = v\<close> for a scalar \<open>v\<close>.\<close>

definition set_region :: "int \<Rightarrow> int \<Rightarrow> int \<Rightarrow> int \<Rightarrow> 'a \<Rightarrow> 'a array2 \<Rightarrow> 'a array2" where
  "set_region r0 r1 c0 c1 v a =
     map (\<lambda>(r, row). if in_slice r0 r1 (length a) r then set_slice c0 c1 v row else row)
       (enumerate 0 a)"

text \<open>\<^verbatim>\<open>a[...] = 0\<close> stores the zero of the array's element type; for \<^verbatim>\<open>float64\<close> it is
  \<^verbatim>\<open>0.0\<close>.\<close>

instantiation float64 :: zero
begin

definition zero_float64 :: float64 where
  "zero_float64 = Fin 0"

instance ..

end

text \<open>Lines 153-156, the horizontal line of the scale bar.\<close>

definition horizontal_line :: "offsets \<Rightarrow> 'a::zero array2 \<Rightarrow> 'a array2" where
  "horizontal_line off a =
     set_region scale_bar_y (scale_bar_y + scale_bar_thickness)
       scale_bar_xL (1 + scale_bar_xL + tick10 off) 0 a"

text \<open>One notch, a column of the rows \<^verbatim>\<open>scale_bar_y - scale_bar_height : 1+scale_bar_y\<close>
  that starts at \<open>x\<close>.\<close>

definition notch :: "int \<Rightarrow> 'a::zero array2 \<Rightarrow> 'a array2" where
  "notch x a = set_region (scale_bar_y - scale_bar_height) (1 + scale_bar_y) x (1 + x) 0 a"

text \<open>Lines 159-171: the chained assignment stores 0 into its four targets from left to
  right, the notches at 0, 1, 5 and 10.\<close>

definition notches :: "offsets \<Rightarrow> 'a::zero array2 \<Rightarrow> 'a array2" where
  "notches off a =
     notch (scale_bar_xL + tick10 off)
       (notch (scale_bar_xL + tick5 off)
         (notch (scale_bar_xL + tick1 off)
           (notch scale_bar_xL a)))"

definition overlay :: "offsets \<Rightarrow> 'a::zero array2 \<Rightarrow> 'a array2" where
  "overlay off a = notches off (horizontal_line off a)"

subsection \<open>The procedure on a store of array objects (lines 96-171)\<close>

text \<open>An array object is an array of the loaded image's unsigned integer type or a
  \<^verbatim>\<open>float64\<close> array (the result of a true division). Array objects live in a store and a
  variable holds the address of its object, so that two names for one object would see each
  other's writes. A new object gets the next free address.\<close>

datatype 'u ndarray = UIntArray "'u array2" | FloatArray "float64 array2"

type_synonym 'u store = "'u ndarray list"

definition alloc :: "'u ndarray \<Rightarrow> 'u store \<Rightarrow> nat \<times> 'u store" where
  "alloc arr st = (length st, st @ [arr])"

text \<open>The overlay writes, done in place on the object at an address.\<close>

definition overlay_object :: "offsets \<Rightarrow> 'u::zero ndarray \<Rightarrow> 'u ndarray" where
  "overlay_object off arr =
     (case arr of
        UIntArray a \<Rightarrow> UIntArray (overlay off a)
      | FloatArray a \<Rightarrow> FloatArray (overlay off a))"

definition overlay_at :: "nat \<Rightarrow> offsets \<Rightarrow> 'u::zero store \<Rightarrow> 'u store" where
  "overlay_at addr off st = st[addr := overlay_object off (st ! addr)]"

text \<open>The variables of the script that outlive it: the two array names, which hold addresses,
  \<^verbatim>\<open>nm_per_pixel\<close> and the dictionary \<^verbatim>\<open>scale_bar_offset\<close>.\<close>

record 'u state =
  store :: "'u store"
  ecoli :: nat
  ecoli_norm :: nat
  calibration :: float64
  ticks :: offsets

text \<open>The clicks and the pixels \<open>tif\<close> of \<^verbatim>\<open>Ecoli100x.tif\<close> are the inputs. The calibration by
  clicks comes first (lines 96-104), then the image is loaded (line 112) and normalised into
  a new array (line 117), and the overlay is written into the object that \<^verbatim>\<open>ecoli_norm\<close>
  names (lines 153-171).\<close>

definition annotate :: "rounding \<Rightarrow> click list \<Rightarrow> 'w::len word array2 \<Rightarrow> error + 'w word state" where
  "annotate fl clicks tif =
     (case click_nm_per_pixel fl clicks of
        Inl e \<Rightarrow> Inl e
      | Inr nm_per_pixel \<Rightarrow>
          (let (ecoli, st1) = alloc (UIntArray tif) [] in
           case normalize_image tif of
             Inl e \<Rightarrow> Inl e
           | Inr normed \<Rightarrow>
               (let (ecoli_norm, st2) = alloc (FloatArray normed) st1 in
                case scale_bar_offset fl (scale_bar_length fl nm_per_pixel) of
                  Inl e \<Rightarrow> Inl e
                | Inr off \<Rightarrow>
                    Inr \<lparr>store = overlay_at ecoli_norm off st2, ecoli = ecoli,
                         ecoli_norm = ecoli_norm, calibration = nm_per_pixel, ticks = off\<rparr>)))"

section \<open>Properties\<close>

subsection \<open>Rounding is monotone\<close>

















lemma round64_not_NaN: "round64 q \<noteq> NaN"
  by (auto simp: round64_def round64_pos_def)

subsection \<open>Evaluating the procedure\<close>

lemma round64_0 [simp]: "round64 0 = Fin 0"
  by (simp add: round64_def)

lemma exact_simps [simp]: "exact q = Fin q"
  by (simp add: exact_def)

lemmas overlay_defs = overlay_def notches_def notch_def horizontal_line_def

lemmas geometry_defs =
  scale_bar_xL_def scale_bar_y_def scale_bar_thickness_def scale_bar_height_def

lemmas array_defs =
  alloc_def normalize_image_def np_min_def np_max_def np_subtract_def np_divide_def
  np_true_divide_def overlay_at_def overlay_object_def set_region_def set_slice_def in_slice_def
  slice_bound_def enumerate_eq_zip

lemma click_pixels_between_lines_two:
  "click_pixels_between_lines fl [(x1, y1), (x2, y2)] = Inr (float_abs (fl (x2 - x1)))"
  by (simp add: click_pixels_between_lines_def py_index_def)

lemma click_nm_per_pixel_two:
  "click_nm_per_pixel fl [(x1, y1), (x2, y2)] =
     Inr (np_float_divide fl 80000 (float_abs (fl (x2 - x1))))"
  by (simp add: click_nm_per_pixel_def click_pixels_between_lines_two)

text \<open>The run with the clicks at 62 and 1299.\<close>

lemma round64_1237: "round64 1237 = Fin 1237"
  by code_simp

lemma round64_nm_per_pixel: "round64 (80000 / 1237) = Fin (4550929292007373 / 70368744177664)"
  by code_simp

lemma click_nm_per_pixel_62_1299:
  "click_nm_per_pixel round64 [(62, y1), (1299, y2)] =
     Inr (Fin (4550929292007373 / 70368744177664))"
  by (simp add: click_nm_per_pixel_two np_float_divide_def round64_1237 round64_nm_per_pixel)

lemma scale_bar_length_62_1299:
  "scale_bar_length round64 (Fin (4550929292007373 / 70368744177664)) =
     Fin (2176153413694259 / 140737488355328)"
  by code_simp

lemma scale_bar_offset_62_1299:
  "scale_bar_offset round64 (Fin (2176153413694259 / 140737488355328)) =
     Inr \<lparr>tick1 = 15, tick5 = 77, tick10 = 154\<rparr>"
  by code_simp


subsection \<open>Calibration\<close>

text \<open>
  Claim C1. For two reference x-positions \<open>x1 \<noteq> x2\<close> the calibration returns
  (gap count \<open>\<times>\<close> unit spacing) / \<open>\<bar>x2 - x1\<bar>\<close>, scaled by 1000 to nanometres, with gap
  count 8 and unit spacing 10: \<open>nm_per_pixel = 1000 * 8 * 10 / \<bar>x2 - x1\<bar>\<close>. In exact
  arithmetic this holds of the click path for all clicks and of the manual path at its
  constants 62 and 1299. In float64 arithmetic \<open>nm_per_pixel\<close> is that quotient rounded
  once, of the pixel distance \<open>\<bar>d\<bar>\<close> that was measured, where \<open>d\<close> is the rounded
  difference of the two positions.
\<close>

theorem calibration_scale_factor:
  "x1 \<noteq> x2 \<Longrightarrow>
   click_nm_per_pixel exact [(x1, y1), (x2, y2)] =
     Inr (Fin (1000 * spec_scale_factor 8 10 \<bar>x2 - x1\<bar>))
   \<and> click_nm_per_pixel exact [(x1, y1), (x2, y2)] = Inr (Fin (1000 * 8 * 10 / \<bar>x2 - x1\<bar>))
   \<and> manual_nm_per_pixel exact = Inr (Fin (1000 * spec_scale_factor 8 10 \<bar>1299 - 62\<bar>))
   \<and> (\<forall>d. round64 (x2 - x1) = Fin d \<and> d \<noteq> 0 \<longrightarrow>
         click_pixels_between_lines round64 [(x1, y1), (x2, y2)] = Inr (Fin \<bar>d\<bar>)
         \<and> click_nm_per_pixel round64 [(x1, y1), (x2, y2)] =
             Inr (round64 (1000 * spec_scale_factor 8 10 \<bar>d\<bar>)))
   \<and> manual_nm_per_pixel round64 = Inr (round64 (1000 * spec_scale_factor 8 10 \<bar>1299 - 62\<bar>))"
  by (simp add: click_nm_per_pixel_two click_pixels_between_lines_two np_float_divide_def
      py_truediv_def spec_scale_factor_def manual_nm_per_pixel_def manual_pixels_between_lines_def)

theorem calibration_scale_factor_witness:
  "(62::rat) \<noteq> 1299
   \<and> round64 (1299 - 62) = Fin 1237 \<and> (1237::rat) \<noteq> 0
   \<and> click_nm_per_pixel exact [(62, 400), (1299, 380)] =
       Inr (Fin (1000 * spec_scale_factor 8 10 \<bar>1299 - 62\<bar>))
   \<and> click_pixels_between_lines round64 [(62, 400), (1299, 380)] = Inr (Fin \<bar>1237\<bar>)
   \<and> click_nm_per_pixel round64 [(62, 400), (1299, 380)] =
       Inr (round64 (1000 * spec_scale_factor 8 10 \<bar>1237\<bar>))"
proof -
  have h: "(62::rat) \<noteq> 1299" by simp
  have r: "round64 (1299 - 62) = Fin 1237 \<and> (1237::rat) \<noteq> 0" by (simp add: round64_1237)
  from calibration_scale_factor [OF h, of 400 380] h r show ?thesis by blast
qed

text \<open>
  Claim C6. With the embedded constants the pixel distance is \<open>1299 - 62 = 1237\<close> and the
  scale factor \<open>1000 * 8 * 10 / 1237\<close> is within 0.01 of 64.67 nm per pixel, as the exact
  quotient and as the float64 value that the script computes.
\<close>

theorem manual_calibration_value:
  "manual_pixels_between_lines = 1237
   \<and> manual_nm_per_pixel exact = Inr (Fin (80000 / 1237))
   \<and> \<bar>(80000 / 1237 :: rat) - 6467 / 100\<bar> < 1 / 100
   \<and> manual_nm_per_pixel round64 = Inr (Fin (4550929292007373 / 70368744177664))
   \<and> \<bar>(4550929292007373 / 70368744177664 :: rat) - 6467 / 100\<bar> < 1 / 100"
  by (simp add: manual_nm_per_pixel_def manual_pixels_between_lines_def py_truediv_def
      round64_nm_per_pixel)

text \<open>
  Claim C7, as amended. When the x-coordinates of the two clicks coincide, the measured pixel
  distance is zero and the division of line 104 is reached with a zero divisor, which nothing
  guards. The division is numpy's, so that no arithmetic fault is raised: \<open>nm_per_pixel\<close> is
  infinite, the scale bar length is 0, the three offsets are 0 and the procedure goes on to
  its end.
\<close>

theorem coincident_clicks_give_inf:
  "click_pixels_between_lines round64 [(x, y1), (x, y2)] = Inr (Fin 0)
   \<and> click_nm_per_pixel round64 [(x, y1), (x, y2)] = Inr PInf
   \<and> scale_bar_length round64 PInf = Fin 0
   \<and> scale_bar_offset round64 (Fin 0) = Inr \<lparr>tick1 = 0, tick5 = 0, tick10 = 0\<rparr>
   \<and> (\<forall>normed. normalize_image tif = Inr normed \<longrightarrow>
         annotate round64 [(x, y1), (x, y2)] tif =
           Inr \<lparr>store = [UIntArray tif,
                          FloatArray (overlay \<lparr>tick1 = 0, tick5 = 0, tick10 = 0\<rparr> normed)],
                ecoli = 0, ecoli_norm = 1, calibration = PInf,
                ticks = \<lparr>tick1 = 0, tick5 = 0, tick10 = 0\<rparr>\<rparr>)"
  by (simp add: click_pixels_between_lines_two click_nm_per_pixel_two annotate_def alloc_def
      scale_bar_length_def scale_bar_offset_def np_float_divide_def np_float_multiply_def
      py_int_def overlay_at_def overlay_object_def)

theorem coincident_clicks_give_inf_witness:
  "normalize_image [[10, 20, 30 :: 8 word]] = Inr [[Fin 0, Fin (1 / 2), Fin 1]]
   \<and> click_pixels_between_lines round64 [(250, 5), (250, 9)] = Inr (Fin 0)
   \<and> click_nm_per_pixel round64 [(250, 5), (250, 9)] = Inr PInf
   \<and> annotate round64 [(250, 5), (250, 9)] [[10, 20, 30 :: 8 word]] =
       Inr \<lparr>store = [UIntArray [[10, 20, 30]],
                      FloatArray (overlay \<lparr>tick1 = 0, tick5 = 0, tick10 = 0\<rparr>
                                    [[Fin 0, Fin (1 / 2), Fin 1]])],
            ecoli = 0, ecoli_norm = 1, calibration = PInf,
            ticks = \<lparr>tick1 = 0, tick5 = 0, tick10 = 0\<rparr>\<rparr>"
proof -
  have h: "normalize_image [[10, 20, 30 :: 8 word]] = Inr [[Fin 0, Fin (1 / 2), Fin 1]]"
    by (simp add: array_defs)
  from coincident_clicks_give_inf [of 250 5 9 "[[10, 20, 30 :: 8 word]]"] h
  show ?thesis by blast
qed

text \<open>
  Claim C7 as stated fails: with both clicks at x = 100 the division returns infinity, no
  \<^verbatim>\<open>ZeroDivisionError\<close> is raised and the procedure returns its state.
\<close>

theorem coincident_clicks_no_fault:
  "click_nm_per_pixel round64 [(100, 5), (100, 7)] = Inr PInf
   \<and> annotate round64 [(100, 5), (100, 7)] [[10, 20, 30 :: 8 word]] =
       Inr \<lparr>store = [UIntArray [[10, 20, 30]], FloatArray [[Fin 0, Fin (1 / 2), Fin 1]]],
            ecoli = 0, ecoli_norm = 1, calibration = PInf,
            ticks = \<lparr>tick1 = 0, tick5 = 0, tick10 = 0\<rparr>\<rparr>"
  by (simp add: annotate_def array_defs click_nm_per_pixel_two scale_bar_length_def
      scale_bar_offset_def np_float_divide_def np_float_multiply_def py_int_def overlay_defs
      geometry_defs)

text \<open>
  Claim C8. The pixel distance and the scale factor depend on the x-components of the two
  clicks only: two runs whose clicks agree in x and differ in y compute the same
  \<open>pixels_between_lines\<close> and the same \<open>nm_per_pixel\<close>.
\<close>

theorem calibration_ignores_y:
  "click_pixels_between_lines fl [(x1, y1), (x2, y2)] =
     click_pixels_between_lines fl [(x1, y1'), (x2, y2')]
   \<and> click_nm_per_pixel fl [(x1, y1), (x2, y2)] = click_nm_per_pixel fl [(x1, y1'), (x2, y2')]"
  by (simp add: click_pixels_between_lines_two click_nm_per_pixel_two)

subsection \<open>Slice assignment\<close>

lemma array2_eqI:
  assumes "length a = length b"
    and "\<And>r. r < length a \<Longrightarrow> length (a ! r) = length (b ! r)"
    and "\<And>r c. r < length a \<Longrightarrow> c < length (a ! r) \<Longrightarrow> a ! r ! c = b ! r ! c"
  shows "a = b"
proof (rule nth_equalityI)
  show "length a = length b" by (rule assms(1))
next
  fix r assume r: "r < length a"
  show "a ! r = b ! r"
    by (rule nth_equalityI) (simp_all add: assms(2,3) r)
qed

lemma length_set_slice [simp]: "length (set_slice start stop v xs) = length xs"
  by (simp add: set_slice_def)

lemma nth_set_slice:
  "i < length xs \<Longrightarrow>
   set_slice start stop v xs ! i = (if in_slice start stop (length xs) i then v else xs ! i)"
  by (simp add: set_slice_def nth_enumerate_eq)

lemma length_set_region [simp]: "length (set_region r0 r1 c0 c1 v a) = length a"
  by (simp add: set_region_def)

lemma row_set_region:
  "r < length a \<Longrightarrow>
   set_region r0 r1 c0 c1 v a ! r =
     (if in_slice r0 r1 (length a) r then set_slice c0 c1 v (a ! r) else a ! r)"
  by (simp add: set_region_def nth_enumerate_eq)

lemma length_row_set_region [simp]:
  "r < length a \<Longrightarrow> length (set_region r0 r1 c0 c1 v a ! r) = length (a ! r)"
  by (simp add: row_set_region)

lemma nth_set_region:
  "r < length a \<Longrightarrow> c < length (a ! r) \<Longrightarrow>
   set_region r0 r1 c0 c1 v a ! r ! c =
     (if in_slice r0 r1 (length a) r \<and> in_slice c0 c1 (length (a ! r)) c then v else a ! r ! c)"
  by (simp add: row_set_region nth_set_slice)

lemma in_slice_nonneg:
  "0 \<le> start \<Longrightarrow> 0 \<le> stop \<Longrightarrow> i < n \<Longrightarrow>
   in_slice start stop n i = (start \<le> int i \<and> int i < stop)"
  by (auto simp: in_slice_def slice_bound_def)

text \<open>
  Claim C10. The overlay is idempotent: the horizontal bar and the four notches, applied
  twice, give the array that applying them once gives. This holds for every array, of any
  size and element type, and so for every image large enough for the writes.
\<close>

theorem overlay_idempotent: "overlay off (overlay off a) = overlay off a"
  unfolding overlay_defs
  by (rule array2_eqI) (simp_all add: nth_set_region)

text \<open>
  Claim C3, as amended. The horizontal write zeroes exactly the positions of rows
  \<open>[900, 905)\<close> and columns \<open>[1150, 1150 + 1 + offset(10))\<close> that exist in the array, keeps
  every other value and the shape; the part of the rectangle beyond the array is clipped by
  the slice and nothing fails.
\<close>

theorem horizontal_line_clips:
  "0 \<le> tick10 off \<Longrightarrow>
   length (horizontal_line off a) = length a \<and>
   (\<forall>r<length a. length (horizontal_line off a ! r) = length (a ! r) \<and>
      (\<forall>c<length (a ! r). horizontal_line off a ! r ! c =
          (if 900 \<le> r \<and> r < 905 \<and> 1150 \<le> c \<and> int c < 1150 + 1 + tick10 off then 0
           else a ! r ! c)))"
  by (auto simp: horizontal_line_def nth_set_region in_slice_nonneg geometry_defs)

theorem horizontal_line_clips_witness:
  "0 \<le> tick10 \<lparr>tick1 = 15, tick5 = 77, tick10 = 154\<rparr>
   \<and> length (replicate 1200 (Fin 1)) < 1150 + 1 + 154
   \<and> length (horizontal_line \<lparr>tick1 = 15, tick5 = 77, tick10 = 154\<rparr>
        (replicate 905 (replicate 1200 (Fin 1)))) = 905
   \<and> length (horizontal_line \<lparr>tick1 = 15, tick5 = 77, tick10 = 154\<rparr>
        (replicate 905 (replicate 1200 (Fin 1))) ! 900) = 1200
   \<and> horizontal_line \<lparr>tick1 = 15, tick5 = 77, tick10 = 154\<rparr>
        (replicate 905 (replicate 1200 (Fin 1))) ! 900 ! 1199 = 0
   \<and> horizontal_line \<lparr>tick1 = 15, tick5 = 77, tick10 = 154\<rparr>
        (replicate 905 (replicate 1200 (Fin 1))) ! 900 ! 1149 = Fin 1
   \<and> horizontal_line \<lparr>tick1 = 15, tick5 = 77, tick10 = 154\<rparr>
        (replicate 905 (replicate 1200 (Fin 1))) ! 899 ! 1199 = Fin 1"
proof -
  let ?off = "\<lparr>tick1 = 15, tick5 = 77, tick10 = 154\<rparr>"
  let ?a = "replicate 905 (replicate 1200 (Fin 1))"
  have h: "0 \<le> tick10 ?off" by simp
  note t = horizontal_line_clips [OF h, of ?a]
  from t have len: "length (horizontal_line ?off ?a) = 905" by simp
  from t have r900: "length (horizontal_line ?off ?a ! 900) = length (?a ! 900) \<and>
      (\<forall>c<length (?a ! 900). horizontal_line ?off ?a ! 900 ! c =
          (if 900 \<le> (900::nat) \<and> (900::nat) < 905 \<and> 1150 \<le> c \<and> int c < 1150 + 1 + tick10 ?off then 0
           else ?a ! 900 ! c))"
    by (elim conjE allE [of _ 900]) simp
  from t have r899: "length (horizontal_line ?off ?a ! 899) = length (?a ! 899) \<and>
      (\<forall>c<length (?a ! 899). horizontal_line ?off ?a ! 899 ! c =
          (if 900 \<le> (899::nat) \<and> (899::nat) < 905 \<and> 1150 \<le> c \<and> int c < 1150 + 1 + tick10 ?off then 0
           else ?a ! 899 ! c))"
    by (elim conjE allE [of _ 899]) simp
  from r900 have a: "length (horizontal_line ?off ?a ! 900) = 1200" by simp
  from r900 have b: "horizontal_line ?off ?a ! 900 ! 1199 = 0"
    by (elim conjE allE [of _ 1199]) simp
  from r900 have c: "horizontal_line ?off ?a ! 900 ! 1149 = Fin 1"
    by (elim conjE allE [of _ 1149]) simp
  from r899 have d: "horizontal_line ?off ?a ! 899 ! 1199 = Fin 1"
    by (elim conjE allE [of _ 1199]) simp
  from h len a b c d show ?thesis by simp
qed

text \<open>
  Claim C3 as stated fails: with the clicks at 62 and 1299, \<open>offset(10)\<close> is 154 and the
  bar ends at column 1305, beyond an image of width 2, and the procedure returns its state
  without any error.
\<close>

theorem horizontal_line_no_bounds_error:
  "annotate round64 [(62, 400), (1299, 380)] [[3, 7], [5, 3 :: 16 word]] =
     Inr \<lparr>store = [UIntArray [[3, 7], [5, 3]],
                    FloatArray [[Fin 0, Fin 1], [Fin (1 / 2), Fin 0]]],
          ecoli = 0, ecoli_norm = 1, calibration = Fin (4550929292007373 / 70368744177664),
          ticks = \<lparr>tick1 = 15, tick5 = 77, tick10 = 154\<rparr>\<rparr>
   \<and> int (length [3, 7 :: 16 word]) < 1150 + 1 + 154"
  by (simp add: annotate_def array_defs click_nm_per_pixel_62_1299 scale_bar_length_62_1299
      scale_bar_offset_62_1299 overlay_defs geometry_defs)

subsection \<open>Scale-bar offsets\<close>





subsection \<open>Normalisation\<close>

lemma fold_min_Min: "fold min ys y = Min (set (y # ys))"
  by (rule Min.set_eq_fold [symmetric])

lemma fold_max_Max: "fold max ys y = Max (set (y # ys))"
  by (rule Max.set_eq_fold [symmetric])

lemma np_min_Inr:
  "np_min a = Inr m \<longleftrightarrow> concat a \<noteq> [] \<and> m = Min (set (concat a))"
proof (cases "concat a")
  case Nil
  then show ?thesis by (simp only: np_min_def list.case) simp
next
  case (Cons y ys)
  then show ?thesis by (simp only: np_min_def list.case fold_min_Min) auto
qed

lemma np_max_Inr:
  "np_max a = Inr m \<longleftrightarrow> concat a \<noteq> [] \<and> m = Max (set (concat a))"
proof (cases "concat a")
  case Nil
  then show ?thesis by (simp only: np_max_def list.case) simp
next
  case (Cons y ys)
  then show ?thesis by (simp only: np_max_def list.case fold_max_Max) auto
qed

lemma np_min_le: "np_min a = Inr m \<Longrightarrow> x \<in> set (concat a) \<Longrightarrow> m \<le> x"
  by (simp add: np_min_Inr)


lemma np_max_ge: "np_max a = Inr m \<Longrightarrow> x \<in> set (concat a) \<Longrightarrow> x \<le> m"
  by (simp add: np_max_Inr)



lemma normalize_Inr:
  "np_min a = Inr mn \<Longrightarrow> np_max a = Inr mx \<Longrightarrow>
   normalize_image a = Inr (np_divide (np_subtract a mn) (mx - mn))"
  by (simp add: normalize_image_def)

lemma normalize_cells:
  "np_divide (np_subtract a mn) d = map (map (\<lambda>x. np_true_divide (x - mn) d)) a"
  by (simp add: np_divide_def np_subtract_def comp_def)



lemma normalize_value:
  assumes "np_min a = Inr mn" "np_max a = Inr mx"
  shows "normalize_image a = Inr (map (map (\<lambda>x. np_true_divide (x - mn) (mx - mn))) a)"
  using assms by (simp add: normalize_Inr normalize_cells)







text \<open>
  Claim C4, as amended. On a constant image, where the maximum equals the minimum, nothing
  is raised and nothing is special-cased: every division is \<open>0 / 0\<close> and the result is an
  array of the same shape whose every value is \<^verbatim>\<open>nan\<close>.
\<close>

theorem constant_image_gives_nan:
  "np_min a = Inr m \<Longrightarrow> np_max a = Inr m \<Longrightarrow> normalize_image a = Inr (map (map (\<lambda>x. NaN)) a)"
proof -
  assume mn: "np_min a = Inr m" and mx: "np_max a = Inr m"
  have "x = m" if "x \<in> set (concat a)" for x
    using np_min_le [OF mn that] np_max_ge [OF mx that] by simp
  then have "\<forall>row\<in>set a. \<forall>x\<in>set row. np_true_divide (x - m) (m - m) = NaN"
    by (auto simp: np_true_divide_def)
  then have "map (map (\<lambda>x. np_true_divide (x - m) (m - m))) a = map (map (\<lambda>x. NaN)) a"
    by (simp cong: map_cong)
  then show ?thesis by (simp add: normalize_value [OF mn mx])
qed

theorem constant_image_gives_nan_witness:
  "np_min [[9, 9, 9 :: 8 word]] = Inr 9 \<and> np_max [[9, 9, 9 :: 8 word]] = Inr 9
   \<and> normalize_image [[9, 9, 9 :: 8 word]] = Inr (map (map (\<lambda>x. NaN)) [[9, 9, 9 :: 8 word]])"
proof -
  have h1: "np_min [[9, 9, 9 :: 8 word]] = Inr 9" by (simp add: np_min_def)
  have h2: "np_max [[9, 9, 9 :: 8 word]] = Inr 9" by (simp add: np_max_def)
  from constant_image_gives_nan [OF h1 h2] h1 h2 show ?thesis by (intro conjI)
qed

text \<open>Claim C4 as stated fails: a constant image is normalised into \<^verbatim>\<open>nan\<close> values.\<close>

theorem constant_image_counterexample:
  "np_min [[5, 5], [5, 5 :: 16 word]] = np_max [[5, 5], [5, 5 :: 16 word]]
   \<and> normalize_image [[5, 5], [5, 5 :: 16 word]] = Inr [[NaN, NaN], [NaN, NaN]]"
  by (simp add: normalize_image_def np_min_def np_max_def np_subtract_def np_divide_def
      np_true_divide_def)

subsection \<open>The procedure\<close>

text \<open>
  Claim C9. The loaded image is never modified: at the end of the procedure the object that
  \<open>ecoli\<close> names still holds the pixels that were loaded, \<open>ecoli_norm\<close> names another
  object, a new array, and the overlay was written into that one.
\<close>

theorem original_image_unchanged:
  "annotate fl clicks tif = Inr s \<Longrightarrow>
   store s ! ecoli s = UIntArray tif
   \<and> ecoli_norm s \<noteq> ecoli s
   \<and> (\<exists>normed. normalize_image tif = Inr normed
         \<and> store s ! ecoli_norm s = FloatArray (overlay (ticks s) normed))"
  by (auto simp: annotate_def alloc_def overlay_at_def overlay_object_def Let_def
      split: sum.splits)

theorem original_image_unchanged_witness:
  "annotate round64 [(62, 5), (1299, 7)] [[10, 20, 30 :: 8 word]] =
     Inr \<lparr>store = [UIntArray [[10, 20, 30]], FloatArray [[Fin 0, Fin (1 / 2), Fin 1]]],
          ecoli = 0, ecoli_norm = 1, calibration = Fin (4550929292007373 / 70368744177664),
          ticks = \<lparr>tick1 = 15, tick5 = 77, tick10 = 154\<rparr>\<rparr>
   \<and> store \<lparr>store = [UIntArray [[10, 20, 30 :: 8 word]], FloatArray [[Fin 0, Fin (1 / 2), Fin 1]]],
          ecoli = 0, ecoli_norm = 1, calibration = Fin (4550929292007373 / 70368744177664),
          ticks = \<lparr>tick1 = 15, tick5 = 77, tick10 = 154\<rparr>\<rparr> ! 0 = UIntArray [[10, 20, 30]]"
proof -
  let ?s = "\<lparr>store = [UIntArray [[10, 20, 30 :: 8 word]], FloatArray [[Fin 0, Fin (1 / 2), Fin 1]]],
          ecoli = 0, ecoli_norm = 1, calibration = Fin (4550929292007373 / 70368744177664),
          ticks = \<lparr>tick1 = 15, tick5 = 77, tick10 = 154\<rparr>\<rparr>"
  have h: "annotate round64 [(62, 5), (1299, 7)] [[10, 20, 30 :: 8 word]] = Inr ?s"
    by (simp add: annotate_def array_defs click_nm_per_pixel_62_1299 scale_bar_length_62_1299
        scale_bar_offset_62_1299 overlay_defs geometry_defs)
  from original_image_unchanged [OF h] h show ?thesis by simp
qed

end
